theory Spec2Isabelle
  imports Complex_Main
begin

section \<open>Shared Python values\<close>

text \<open>
  The orchestrator is Python. Exceptions are values of the type \<open>error\<close>; a function
  that may raise returns \<open>error + 'a\<close>. A \<open>Dict[str, Any]\<close> is an association list
  in insertion order; its truth value is "not empty", as Python's is.
\<close>

datatype error =
    StopIteration
  | AttributeError string
  | IntegrityError
  | OverflowError
  | ZeroDivisionError
  | TypeError string
  | ValueError string

datatype pyval = PNone | PBool bool | PInt int | PStr string

type_synonym pydict = "(string \<times> pyval) list"

definition truthy :: "pydict option \<Rightarrow> bool" where
  \<comment> \<open>the truth value of an \<open>Optional[Dict]\<close>: \<open>None\<close> and \<open>{}\<close> are false\<close>
  "truthy d = (case d of None \<Rightarrow> False | Some [] \<Rightarrow> False | Some (_ # _) \<Rightarrow> True)"

definition or_empty :: "pydict option \<Rightarrow> pydict" where
  \<comment> \<open>the expression \<open>d or {}\<close>\<close>
  "or_empty d = (if truthy d then the d else [])"

section \<open>deduplication.py: the request deduplication cache\<close>

text \<open>
  \<open>time.time()\<close> is an input of every operation that reads the clock; times and the
  differences of times are real numbers (the rounding of floats is not modelled).
\<close>

record RequestRecord =
  rr_req_id :: string
  rr_timestamp :: real
  rr_device_id :: string
  rr_action :: string
  rr_result :: "pydict option"
  rr_processing :: bool

subsection \<open>OrderedDict\<close>

text \<open>
  An \<open>OrderedDict\<close> is an association list, oldest entry first. Assigning to a key
  that is present keeps its position, assigning to a new key appends it;
  \<open>move_to_end\<close> moves a present key to the end; \<open>pop\<close> removes it.
\<close>

type_synonym 'v ordered_dict = "(string \<times> 'v) list"

fun od_set :: "string \<Rightarrow> 'v \<Rightarrow> 'v ordered_dict \<Rightarrow> 'v ordered_dict" where
  "od_set k v [] = [(k, v)]"
| "od_set k v (p # ps) = (if fst p = k then (k, v) # ps else p # od_set k v ps)"

definition od_pop :: "string \<Rightarrow> 'v ordered_dict \<Rightarrow> 'v ordered_dict" where
  "od_pop k ps = filter (\<lambda>p. fst p \<noteq> k) ps"

definition od_move_to_end :: "string \<Rightarrow> 'v ordered_dict \<Rightarrow> 'v ordered_dict" where
  "od_move_to_end k ps =
     (case map_of ps k of None \<Rightarrow> ps | Some v \<Rightarrow> od_pop k ps @ [(k, v)])"

subsection \<open>RequestDeduplicator\<close>

record RequestDeduplicator =
  ttl_seconds :: int
  max_size :: int
  cache :: "RequestRecord ordered_dict"
  processing :: "string set"

definition init_dedup :: "int \<Rightarrow> int \<Rightarrow> RequestDeduplicator" where
  \<comment> \<open>\<open>__init__(ttl_seconds, max_size)\<close>\<close>
  "init_dedup ttl cap = \<lparr>ttl_seconds = ttl, max_size = cap, cache = [], processing = {}\<rparr>"

definition expired :: "real \<Rightarrow> int \<Rightarrow> RequestRecord \<Rightarrow> bool" where
  \<comment> \<open>\<open>current_time - record.timestamp > self.ttl_seconds\<close>\<close>
  "expired current_time ttl r = (current_time - rr_timestamp r > of_int ttl)"

definition expired_keys :: "real \<Rightarrow> RequestDeduplicator \<Rightarrow> string list" where
  \<comment> \<open>the first loop of \<open>_cleanup_expired\<close>: it stops at the first entry that has
      not expired\<close>
  "expired_keys current_time d =
     map fst (takeWhile (\<lambda>p. expired current_time (ttl_seconds d) (snd p)) (cache d))"

definition cleanup_expired :: "real \<Rightarrow> RequestDeduplicator \<Rightarrow> RequestDeduplicator" where
  \<comment> \<open>\<open>_cleanup_expired\<close>: the second loop pops every collected key\<close>
  "cleanup_expired current_time d =
     (let ks = expired_keys current_time d
      in d\<lparr>cache := fold od_pop ks (cache d), processing := processing d - set ks\<rparr>)"

definition is_duplicate ::
  "real \<Rightarrow> string \<Rightarrow> string \<Rightarrow> string \<Rightarrow> RequestDeduplicator
     \<Rightarrow> (bool \<times> RequestRecord option) \<times> RequestDeduplicator" where
  "is_duplicate now rid dev act d =
     (let d1 = cleanup_expired now d
      in case map_of (cache d1) rid of
           Some record \<Rightarrow>
             (let d2 = d1\<lparr>cache := od_move_to_end rid (cache d1)\<rparr>
              in if rr_device_id record = dev \<and> rr_action record = act
                 then ((True, Some record), d2)
                 else ((False, None), d2))
         | None \<Rightarrow> ((False, None), d1))"

function enforce_max_size :: "RequestDeduplicator \<Rightarrow> error option \<times> RequestDeduplicator" where
  "enforce_max_size d =
     (if int (length (cache d)) > max_size d
      then (case cache d of
              [] \<Rightarrow> (Some StopIteration, d)
            | p # _ \<Rightarrow>
                enforce_max_size
                  (d\<lparr>cache := od_pop (fst p) (cache d),
                     processing := processing d - {fst p}\<rparr>))
      else (None, d))"
  by pat_completeness auto
termination
proof (relation "measure (\<lambda>d. length (cache d))")
  show "wf (measure (\<lambda>d. length (cache d)))" by simp
next
  fix d :: RequestDeduplicator and p ps
  assume "cache d = p # ps"
  then have "length (od_pop (fst p) (cache d)) \<le> length ps"
    by (simp add: od_pop_def)
  with \<open>cache d = p # ps\<close>
  show "(d\<lparr>cache := od_pop (fst p) (cache d), processing := processing d - {fst p}\<rparr>, d)
          \<in> measure (\<lambda>d. length (cache d))"
    by simp
qed

declare enforce_max_size.simps [simp del]

definition mark_processing ::
  "real \<Rightarrow> string \<Rightarrow> string \<Rightarrow> string \<Rightarrow> RequestDeduplicator
     \<Rightarrow> (error + bool) \<times> RequestDeduplicator" where
  "mark_processing now rid dev act d =
     (if rid \<in> processing d then (Inr False, d)
      else
        let record = \<lparr>rr_req_id = rid, rr_timestamp = now, rr_device_id = dev,
                      rr_action = act, rr_result = None, rr_processing = True\<rparr>;
            d1 = d\<lparr>processing := insert rid (processing d),
                   cache := od_set rid record (cache d)\<rparr>
        in case enforce_max_size d1 of
             (Some e, d2) \<Rightarrow> (Inl e, d2)
           | (None, d2) \<Rightarrow> (Inr True, d2))"

definition finish :: "real \<Rightarrow> string \<Rightarrow> pydict \<Rightarrow> RequestDeduplicator \<Rightarrow> RequestDeduplicator" where
  \<comment> \<open>the body \<open>mark_completed\<close> and \<open>mark_failed\<close> share: drop the id from the
      processing set, store the result and a fresh timestamp in the cached record if
      there is one, and move it to the end\<close>
  "finish now rid res d =
     (let d1 = d\<lparr>processing := processing d - {rid}\<rparr>
      in case map_of (cache d1) rid of
           Some record \<Rightarrow>
             d1\<lparr>cache := od_move_to_end rid
                   (od_set rid (record\<lparr>rr_processing := False, rr_result := Some res,
                                      rr_timestamp := now\<rparr>) (cache d1))\<rparr>
         | None \<Rightarrow> d1)"

definition mark_completed ::
  "real \<Rightarrow> string \<Rightarrow> pydict option \<Rightarrow> RequestDeduplicator \<Rightarrow> RequestDeduplicator" where
  \<comment> \<open>\<open>record.result = result or {}\<close>\<close>
  "mark_completed now rid res d = finish now rid (or_empty res) d"

definition mark_failed ::
  "real \<Rightarrow> string \<Rightarrow> string \<Rightarrow> RequestDeduplicator \<Rightarrow> RequestDeduplicator" where
  "mark_failed now rid err d =
     finish now rid [(''error'', PStr err), (''success'', PBool False)] d"

definition get_result ::
  "string \<Rightarrow> RequestDeduplicator \<Rightarrow> pydict option \<times> RequestDeduplicator" where
  "get_result rid d =
     (case map_of (cache d) rid of
        Some record \<Rightarrow>
          (if \<not> rr_processing record \<and> rr_result record \<noteq> None
           then (rr_result record, d\<lparr>cache := od_move_to_end rid (cache d)\<rparr>)
           else (None, d))
      | None \<Rightarrow> (None, d))"

subsection \<open>The module-level functions on the global deduplicator\<close>

definition processing_response :: pydict where
  "processing_response =
     [(''status'', PStr ''processing''),
      (''message'', PStr ''Request is currently being processed'')]"

definition is_duplicate_request ::
  "real \<Rightarrow> string \<Rightarrow> string \<Rightarrow> string \<Rightarrow> RequestDeduplicator
     \<Rightarrow> (bool \<times> pydict option) \<times> RequestDeduplicator" where
  "is_duplicate_request now rid dev act g =
     (case is_duplicate now rid dev act g of
        ((is_dup, Some record), g') \<Rightarrow>
          (if is_dup
           then (if rr_processing record then ((True, Some processing_response), g')
                 else if truthy (rr_result record) then ((True, rr_result record), g')
                 else ((False, None), g'))
           else ((False, None), g'))
      | ((is_dup, None), g') \<Rightarrow> ((False, None), g'))"

subsection \<open>Sequences of cache operations\<close>

datatype dedup_op =
    IsDuplicate string string string
  | MarkProcessing string string string
  | MarkCompleted string "pydict option"
  | MarkFailed string string

fun dedup_step :: "RequestDeduplicator \<Rightarrow> real \<times> dedup_op \<Rightarrow> RequestDeduplicator" where
  "dedup_step d (now, IsDuplicate rid dev act) = snd (is_duplicate now rid dev act d)"
| "dedup_step d (now, MarkProcessing rid dev act) = snd (mark_processing now rid dev act d)"
| "dedup_step d (now, MarkCompleted rid res) = mark_completed now rid res d"
| "dedup_step d (now, MarkFailed rid err) = mark_failed now rid err d"

definition dedup_run :: "RequestDeduplicator \<Rightarrow> (real \<times> dedup_op) list \<Rightarrow> RequestDeduplicator" where
  \<comment> \<open>the cache after a sequence of calls, each with the clock reading it saw\<close>
  "dedup_run d ops = foldl dedup_step d ops"

section \<open>db.py: the persistence gateway\<close>

text \<open>
  A \<open>datetime\<close> is a whole number of microseconds since the epoch (the resolution of
  Python's \<open>datetime\<close>), a \<open>timedelta\<close> a whole number of microseconds. A table is
  the list of its rows. \<open>datetime.utcnow()\<close> and \<open>uuid.uuid4()\<close> are inputs of the
  operations that call them. The model starts where a function body starts: the
  session is opened, the statements run, and a commit that fails leaves the tables as
  they were.
\<close>

record Command =
  c_id :: string
  c_req_id :: string
  c_device_id :: string
  c_module_name :: string
  c_actor :: string
  c_action :: string
  c_params :: pydict
  c_status :: string
  c_dispatched_at :: "int option"
  c_acked_at :: "int option"
  c_success :: "bool option"
  c_error_message :: "string option"
  c_response_details :: pydict
  c_duration_ms :: "int option"

record Heartbeat =
  h_id :: string
  h_device_id :: string
  h_online :: bool
  h_timestamp :: int
  h_metadata :: pydict

record ModuleStatus =
  ms_id :: string
  ms_device_id :: string
  ms_module_name :: string
  ms_state :: string
  ms_fields :: pydict
  ms_online :: bool
  ms_timestamp :: int

record Event =
  e_id :: string
  e_event_type :: string
  e_device_id :: "string option"
  e_module_name :: "string option"
  e_actor :: "string option"
  e_description :: string
  e_metadata :: pydict
  e_timestamp :: int

record database =
  commands :: "Command list"
  heartbeats :: "Heartbeat list"
  module_status :: "ModuleStatus list"
  events :: "Event list"

definition empty_database :: database where
  "empty_database = \<lparr>commands = [], heartbeats = [], module_status = [], events = []\<rparr>"

definition query_command :: "string \<Rightarrow> database \<Rightarrow> Command option" where
  \<comment> \<open>\<open>session.query(Command).filter_by(req_id=req_id).first()\<close>\<close>
  "query_command rid db = find (\<lambda>c. c_req_id c = rid) (commands db)"

fun update_command :: "string \<Rightarrow> Command \<Rightarrow> Command list \<Rightarrow> Command list" where
  \<comment> \<open>the commit of a changed row: the row found by \<open>query_command\<close> is replaced\<close>
  "update_command rid c' [] = []"
| "update_command rid c' (c # cs) =
     (if c_req_id c = rid then c' # cs else c # update_command rid c' cs)"

definition record_command_dispatch ::
  "string \<Rightarrow> int \<Rightarrow> string \<Rightarrow> string \<Rightarrow> string \<Rightarrow> string \<Rightarrow> string \<Rightarrow> pydict
     \<Rightarrow> database \<Rightarrow> (error + Command) \<times> database" where
  \<comment> \<open>\<open>uuid\<close> and \<open>now\<close> are the column defaults \<open>uuid.uuid4\<close> and
      \<open>datetime.utcnow\<close> taken at the insert; \<open>id\<close> is the primary key and
      \<open>req_id\<close> has a unique index, so the commit of a second row with either raises\<close>
  "record_command_dispatch uuid now rid dev modname actor act params db =
     (let command = \<lparr>c_id = uuid, c_req_id = rid, c_device_id = dev,
                       c_module_name = modname, c_actor = actor, c_action = act,
                       c_params = params, c_status = ''dispatched'',
                       c_dispatched_at = Some now, c_acked_at = None, c_success = None,
                       c_error_message = None, c_response_details = [],
                       c_duration_ms = None\<rparr>
      in if rid \<in> set (map c_req_id (commands db)) \<or> uuid \<in> set (map c_id (commands db))
         then (Inl IntegrityError, db)
         else (Inr command, db\<lparr>commands := commands db @ [command]\<rparr>))"

definition total_ms :: "int \<Rightarrow> int" where
  \<comment> \<open>\<open>int(duration.total_seconds() * 1000)\<close> of a duration in microseconds: the
      milliseconds, truncated towards zero (the rounding of the two float operations
      is not modelled)\<close>
  "total_ms us = (if 0 \<le> us then us div 1000 else - ((- us) div 1000))"

definition ack_row ::
  "int \<Rightarrow> int \<Rightarrow> bool \<Rightarrow> string option \<Rightarrow> pydict option \<Rightarrow> Command \<Rightarrow> Command" where
  \<comment> \<open>the assignments \<open>record_command_ack\<close> makes to the row it has found;
      \<open>now1\<close> and \<open>now2\<close> are the two readings of \<open>datetime.utcnow()\<close>, for
      \<open>acked_at\<close> and for the duration\<close>
  "ack_row now1 now2 success error_message response_details command =
     (let c1 = command\<lparr>c_status := (if success then ''acked'' else ''failed''),
                       c_acked_at := Some now1,
                       c_success := Some success,
                       c_error_message := error_message,
                       c_response_details := or_empty response_details\<rparr>
      in case c_dispatched_at c1 of
           Some t \<Rightarrow> c1\<lparr>c_duration_ms := Some (total_ms (now2 - t))\<rparr>
         | None \<Rightarrow> c1)"

definition record_command_ack ::
  "int \<Rightarrow> int \<Rightarrow> string \<Rightarrow> bool \<Rightarrow> string option \<Rightarrow> pydict option
     \<Rightarrow> database \<Rightarrow> Command option \<times> database" where
  "record_command_ack now1 now2 rid success error_message response_details db =
     (case query_command rid db of
        None \<Rightarrow> (None, db)
      | Some command \<Rightarrow>
          (let command' = ack_row now1 now2 success error_message response_details command
           in (Some command', db\<lparr>commands := update_command rid command' (commands db)\<rparr>)))"

definition start_of_day :: "int \<Rightarrow> int" where
  \<comment> \<open>\<open>.replace(hour=0, minute=0, second=0, microsecond=0)\<close>\<close>
  "start_of_day t = t - t mod 86400000000"

definition timedelta_days :: "int \<Rightarrow> int" where
  \<comment> \<open>\<open>timedelta(days=days)\<close> of the module \<open>datetime\<close>\<close>
  "timedelta_days days = days * 86400000000"

definition datetime_class_attributes :: "string list" where
  \<comment> \<open>the public attributes of the class \<open>datetime.datetime\<close>\<close>
  "datetime_class_attributes =
     [''min'', ''max'', ''resolution'', ''today'', ''now'', ''utcnow'', ''fromtimestamp'',
      ''utcfromtimestamp'', ''fromordinal'', ''fromisoformat'', ''fromisocalendar'',
      ''combine'', ''strptime'', ''year'', ''month'', ''day'', ''hour'', ''minute'',
      ''second'', ''microsecond'', ''tzinfo'', ''fold'', ''date'', ''time'', ''timetz'',
      ''replace'', ''astimezone'', ''utcoffset'', ''dst'', ''tzname'', ''timetuple'',
      ''utctimetuple'', ''toordinal'', ''timestamp'', ''weekday'', ''isoweekday'',
      ''isocalendar'', ''isoformat'', ''ctime'', ''strftime'']"

definition datetime_timedelta :: "error + (int \<Rightarrow> int)" where
  \<comment> \<open>the expression \<open>datetime.timedelta\<close> in db.py. The module imports with
      \<open>from datetime import datetime\<close>, so the name \<open>datetime\<close> is the class, not
      the module, and \<open>timedelta\<close> is looked up among the attributes of the class.\<close>
  "datetime_timedelta =
     (if ''timedelta'' \<in> set datetime_class_attributes then Inr timedelta_days
      else Inl (AttributeError ''timedelta''))"

definition cleanup_old_records :: "int \<Rightarrow> int \<Rightarrow> database \<Rightarrow> (error + unit) \<times> database" where
  "cleanup_old_records now days db =
     (let cutoff = start_of_day now
      in case datetime_timedelta of
           Inl e \<Rightarrow> (Inl e, db)
         | Inr timedelta \<Rightarrow>
             (let cutoff = cutoff - timedelta days
              in (Inr (),
                  db\<lparr>heartbeats := filter (\<lambda>h. \<not> h_timestamp h < cutoff) (heartbeats db),
                     module_status :=
                       filter (\<lambda>m. \<not> ms_timestamp m < cutoff) (module_status db),
                     events := filter (\<lambda>e. \<not> e_timestamp e < cutoff) (events db)\<rparr>)))"

section \<open>dead_letter.py: the dead letter queue\<close>

datatype FailureReason =
    VALIDATION_ERROR
  | DEVICE_UNREACHABLE
  | MODULE_ERROR
  | TIMEOUT
  | PROCESSING_ERROR
  | RETRY_EXHAUSTED
  | SCHEMA_VIOLATION
  | RESOURCE_LOCKED
  | UNKNOWN_DEVICE
  | UNKNOWN_MODULE

record DeadLetterMessage =
  dl_id :: string
  dl_original_topic :: string
  dl_payload :: pydict
  dl_failure_reason :: FailureReason
  dl_error_message :: string
  dl_device_id :: "string option"
  dl_module_name :: "string option"
  dl_req_id :: pyval
  dl_retry_count :: int
  dl_first_failed_at :: string
  dl_last_failed_at :: string
  dl_metadata :: pydict

datatype mqtt_payload = Plain pydict | Letter DeadLetterMessage

record publication =
  pub_topic :: string
  pub_payload :: mqtt_payload
  pub_qos :: nat
  pub_retain :: bool

type_synonym mqtt = "publication list"

definition publish_json :: "string \<Rightarrow> mqtt_payload \<Rightarrow> nat \<Rightarrow> bool \<Rightarrow> mqtt \<Rightarrow> mqtt" where
  \<comment> \<open>Modelled from the spec: \<open>SharedMQTT.publish_json\<close> of \<open>services/mqtt\<close>, which
      is not among the sources. The bus client publishes a payload on a topic with a
      delivery-quality level and a retain flag; the model records the publications in
      order.\<close>
  "publish_json topic payload q r out =
     out @ [\<lparr>pub_topic = topic, pub_payload = payload, pub_qos = q, pub_retain = r\<rparr>]"

definition str_truthy :: "string option \<Rightarrow> bool" where
  \<comment> \<open>the truth value of an \<open>Optional[str]\<close>\<close>
  "str_truthy s = (case s of None \<Rightarrow> False | Some x \<Rightarrow> x \<noteq> [])"

definition send_to_dlq ::
  "string \<Rightarrow> string \<Rightarrow> string \<Rightarrow> string \<Rightarrow> pydict \<Rightarrow> FailureReason \<Rightarrow> string
     \<Rightarrow> string option \<Rightarrow> string option \<Rightarrow> string option \<Rightarrow> int \<Rightarrow> pydict option
     \<Rightarrow> mqtt \<Rightarrow> DeadLetterMessage \<times> mqtt" where
  \<comment> \<open>\<open>uuid\<close> is \<open>str(uuid.uuid4())\<close>, \<open>now1\<close> and \<open>now2\<close> the two formatted clock
      readings. \<open>_store_dlq_message\<close> is \<open>pass\<close> inside a session and stores
      nothing; the message is returned here only to name it.\<close>
  "send_to_dlq uuid now1 now2 original_topic payload failure_reason error_message
       device_id module_name req_id retry_count metadata out =
     (let dlq_message =
            \<lparr>dl_id = uuid, dl_original_topic = original_topic, dl_payload = payload,
             dl_failure_reason = failure_reason, dl_error_message = error_message,
             dl_device_id = device_id, dl_module_name = module_name,
             dl_req_id = (if str_truthy req_id then PStr (the req_id)
                          else case map_of payload ''req_id'' of
                                 Some v \<Rightarrow> v | None \<Rightarrow> PNone),
             dl_retry_count = retry_count,
             dl_first_failed_at = now1, dl_last_failed_at = now2,
             dl_metadata = or_empty metadata\<rparr>;
          dlq_topic =
            (if str_truthy device_id \<and> str_truthy module_name
             then ''/lab/dlq/'' @ the device_id @ ''/'' @ the module_name
             else if str_truthy device_id
             then ''/lab/dlq/'' @ the device_id @ ''/device''
             else ''/lab/dlq/orchestrator'')
      in (dlq_message, publish_json dlq_topic (Letter dlq_message) 1 False out))"

definition get_dlq_message :: "string \<Rightarrow> DeadLetterMessage option" where
  \<comment> \<open>\<open>_get_dlq_message\<close>: \<open>return None  # Placeholder\<close>\<close>
  "get_dlq_message dlq_id = None"

definition update_dlq_message :: "DeadLetterMessage \<Rightarrow> unit" where
  \<comment> \<open>\<open>_update_dlq_message\<close>: \<open>pass\<close>\<close>
  "update_dlq_message message = ()"

definition retry_found ::
  "int \<Rightarrow> string \<Rightarrow> DeadLetterMessage \<Rightarrow> mqtt \<Rightarrow> bool \<times> DeadLetterMessage \<times> mqtt" where
  \<comment> \<open>the body of \<open>retry_message\<close> from the retry-count check on, for a message the
      lookup has returned; the message is returned as the body leaves it\<close>
  "retry_found max_retries now dlq_message out =
     (if dl_retry_count dlq_message \<ge> max_retries then (False, dlq_message, out)
      else
        let out' = publish_json (dl_original_topic dlq_message)
                     (Plain (dl_payload dlq_message)) 1 False out;
            m' = dlq_message\<lparr>dl_retry_count := dl_retry_count dlq_message + 1,
                             dl_last_failed_at := now\<rparr>;
            u = update_dlq_message m'
        in (True, m', out'))"

definition retry_message :: "int \<Rightarrow> string \<Rightarrow> string \<Rightarrow> mqtt \<Rightarrow> bool \<times> mqtt" where
  "retry_message max_retries now dlq_id out =
     (case get_dlq_message dlq_id of
        None \<Rightarrow> (False, out)
      | Some dlq_message \<Rightarrow>
          (case retry_found max_retries now dlq_message out of
             (ok, m', out') \<Rightarrow> (ok, out')))"

section \<open>retry.py: the backoff delay\<close>

text \<open>
  A Python float is a double: a finite value, an infinity or a NaN. The arithmetic of
  doubles rounds every exact result. The rounding of a result inside the range of the
  finite doubles is an input \<open>rnd\<close> of the model (on the machine: to the nearest
  double, ties to even), and what is proved of the delay holds for every \<open>rnd\<close>.
  An exact result of magnitude \<open>2^1024 - 2^970\<close> or more, which is halfway between
  the largest double \<open>2^1024 - 2^971\<close> and \<open>2^1024\<close>, rounds to an infinity.
  The fields of a configuration are finite doubles, the attempt number is small enough
  to be a double itself, the draw of \<open>random.random()\<close> is an input \<open>u\<close>, and the
  sign of a zero is not modelled.
\<close>

datatype pyfloat = Fin real | PInf | NInf | NaN

definition overflow_threshold :: real where
  "overflow_threshold = 2 ^ 1024 - 2 ^ 970"

definition to_double :: "(real \<Rightarrow> real) \<Rightarrow> real \<Rightarrow> pyfloat" where
  \<comment> \<open>the double an operation returns whose exact result is \<open>r\<close>\<close>
  "to_double rnd r =
     (if r \<ge> overflow_threshold then PInf
      else if r \<le> - overflow_threshold then NInf
      else Fin (rnd r))"

definition signed_inf :: "bool \<Rightarrow> pyfloat" where
  "signed_inf negative = (if negative then NInf else PInf)"

fun fneg :: "pyfloat \<Rightarrow> pyfloat" where
  "fneg (Fin x) = Fin (- x)"
| "fneg PInf = NInf"
| "fneg NInf = PInf"
| "fneg NaN = NaN"

fun fadd :: "(real \<Rightarrow> real) \<Rightarrow> pyfloat \<Rightarrow> pyfloat \<Rightarrow> pyfloat" where
  "fadd rnd (Fin x) (Fin y) = to_double rnd (x + y)"
| "fadd rnd NaN b = NaN"
| "fadd rnd a NaN = NaN"
| "fadd rnd PInf NInf = NaN"
| "fadd rnd NInf PInf = NaN"
| "fadd rnd PInf b = PInf"
| "fadd rnd NInf b = NInf"
| "fadd rnd a PInf = PInf"
| "fadd rnd a NInf = NInf"

fun fmul :: "(real \<Rightarrow> real) \<Rightarrow> pyfloat \<Rightarrow> pyfloat \<Rightarrow> pyfloat" where
  "fmul rnd (Fin x) (Fin y) = to_double rnd (x * y)"
| "fmul rnd NaN b = NaN"
| "fmul rnd a NaN = NaN"
| "fmul rnd (Fin x) PInf = (if x = 0 then NaN else signed_inf (x < 0))"
| "fmul rnd (Fin x) NInf = (if x = 0 then NaN else signed_inf (0 < x))"
| "fmul rnd PInf (Fin y) = (if y = 0 then NaN else signed_inf (y < 0))"
| "fmul rnd NInf (Fin y) = (if y = 0 then NaN else signed_inf (0 < y))"
| "fmul rnd PInf PInf = PInf"
| "fmul rnd NInf NInf = PInf"
| "fmul rnd PInf NInf = NInf"
| "fmul rnd NInf PInf = NInf"

fun flt :: "pyfloat \<Rightarrow> pyfloat \<Rightarrow> bool" where
  \<comment> \<open>\<open>a < b\<close>: false when either is a NaN\<close>
  "flt NaN b = False"
| "flt a NaN = False"
| "flt (Fin x) (Fin y) = (x < y)"
| "flt NInf NInf = False"
| "flt NInf b = True"
| "flt a NInf = False"
| "flt PInf b = False"
| "flt a PInf = True"

definition py_min :: "pyfloat \<Rightarrow> pyfloat \<Rightarrow> pyfloat" where
  \<comment> \<open>\<open>min(a, b)\<close>: the first argument unless the second is less\<close>
  "py_min a b = (if flt b a then b else a)"

definition py_max :: "pyfloat \<Rightarrow> pyfloat \<Rightarrow> pyfloat" where
  \<comment> \<open>\<open>max(a, b)\<close>: the first argument unless the second is greater\<close>
  "py_max a b = (if flt a b then b else a)"

record RetryConfig =
  max_attempts :: int
  base_delay :: real
  max_delay :: real
  exponential_base :: real
  jitter :: bool
  jitter_factor :: real

definition default_RetryConfig :: RetryConfig where
  "default_RetryConfig =
     \<lparr>max_attempts = 3, base_delay = 1, max_delay = 60, exponential_base = 2,
      jitter = True, jitter_factor = 1 / 10\<rparr>"

definition float_pow :: "(real \<Rightarrow> real) \<Rightarrow> real \<Rightarrow> int \<Rightarrow> error + real" where
  \<comment> \<open>\<open>x ** n\<close> for a finite float \<open>x\<close> and an int \<open>n\<close>: \<open>1.0\<close> for \<open>n = 0\<close>,
      \<open>ZeroDivisionError\<close> for zero to a negative power, \<open>OverflowError\<close> when the
      power rounds to an infinity, and the rounded power otherwise (a power too small
      for a double is rounded as every result is, without an error)\<close>
  "float_pow rnd x n =
     (if n = 0 then Inr 1
      else if n < 0 \<and> x = 0 then Inl ZeroDivisionError
      else case to_double rnd (if 0 \<le> n then x ^ nat n else 1 / x ^ nat (- n)) of
             Fin y \<Rightarrow> Inr y
           | _ \<Rightarrow> Inl OverflowError)"

definition uniform :: "(real \<Rightarrow> real) \<Rightarrow> pyfloat \<Rightarrow> pyfloat \<Rightarrow> real \<Rightarrow> pyfloat" where
  \<comment> \<open>\<open>random.uniform(a, b)\<close> is \<open>a + (b - a) * random()\<close>\<close>
  "uniform rnd a b u = fadd rnd a (fmul rnd (fadd rnd b (fneg a)) (Fin u))"

definition calculate_delay ::
  "(real \<Rightarrow> real) \<Rightarrow> RetryConfig \<Rightarrow> int \<Rightarrow> real \<Rightarrow> error + pyfloat" where
  "calculate_delay rnd cfg attempt u =
     (case float_pow rnd (exponential_base cfg) (attempt - 1) of
        Inl e \<Rightarrow> Inl e
      | Inr p \<Rightarrow>
          (let delay = fmul rnd (Fin (base_delay cfg)) (Fin p);
               delay = py_min delay (Fin (max_delay cfg))
           in if jitter cfg
              then (let jitter_range = fmul rnd delay (Fin (jitter_factor cfg));
                        j = uniform rnd (fneg jitter_range) jitter_range u
                    in Inr (py_max (Fin 0) (fadd rnd delay j)))
              else Inr delay))"

section \<open>schema.py: the size of the params of a command envelope\<close>

text \<open>
  The values \<open>json.dumps\<close> is given: \<open>None\<close>, booleans, ints, strings, lists,
  dicts with string keys, and objects of a class the encoder does not know, named by
  their class (floats are left out). \<open>json_dumps\<close> is \<open>json.dumps\<close> with its
  defaults: the separators are \<open>', '\<close> and \<open>': '\<close>, and \<open>ensure_ascii\<close> escapes
  every character outside \<open>' '\<close> .. \<open>'~'\<close>.
\<close>

datatype json =
    JNull
  | JBool bool
  | JInt int
  | JStr string
  | JList "json list"
  | JDict "(string \<times> json) list"
  | JObject string

definition hex_digit :: "nat \<Rightarrow> char" where
  \<comment> \<open>the digit of a value below 16 (below 10 it is the decimal digit)\<close>
  "hex_digit n = ''0123456789abcdef'' ! (n mod 16)"

definition escape_char :: "char \<Rightarrow> string" where
  "escape_char c =
     (if c = CHR 0x22 then [CHR 0x5C, CHR 0x22]
      else if c = CHR 0x5C then [CHR 0x5C, CHR 0x5C]
      else if c = CHR 0x0A then [CHR 0x5C, CHR ''n'']
      else if c = CHR 0x0D then [CHR 0x5C, CHR ''r'']
      else if c = CHR 0x09 then [CHR 0x5C, CHR ''t'']
      else if c = CHR 0x08 then [CHR 0x5C, CHR ''b'']
      else if c = CHR 0x0C then [CHR 0x5C, CHR ''f'']
      else if of_char c < (0x20 :: nat) \<or> of_char c > (0x7E :: nat)
      then [CHR 0x5C, CHR ''u'', CHR ''0'', CHR ''0'',
            hex_digit (of_char c div 16), hex_digit (of_char c)]
      else [c])"

definition dumps_str :: "string \<Rightarrow> string" where
  "dumps_str s = [CHR 0x22] @ concat (map escape_char s) @ [CHR 0x22]"

fun digits :: "nat \<Rightarrow> string" where
  \<comment> \<open>the decimal numeral of a natural number\<close>
  "digits n = (if n < 10 then [hex_digit n] else digits (n div 10) @ [hex_digit (n mod 10)])"

declare digits.simps [simp del]

definition dumps_int :: "int \<Rightarrow> string" where
  "dumps_int i = (if i < 0 then CHR ''-'' # digits (nat (- i)) else digits (nat i))"

fun json_dumps :: "json \<Rightarrow> error + string"
  and dumps_items :: "json list \<Rightarrow> error + string"
  and dumps_pairs :: "(string \<times> json) list \<Rightarrow> error + string" where
  "json_dumps JNull = Inr ''null''"
| "json_dumps (JBool b) = Inr (if b then ''true'' else ''false'')"
| "json_dumps (JInt i) = Inr (dumps_int i)"
| "json_dumps (JStr s) = Inr (dumps_str s)"
| "json_dumps (JList xs) =
     (case dumps_items xs of Inl e \<Rightarrow> Inl e | Inr s \<Rightarrow> Inr (''['' @ s @ '']''))"
| "json_dumps (JDict kvs) =
     (case dumps_pairs kvs of Inl e \<Rightarrow> Inl e | Inr s \<Rightarrow> Inr (''{'' @ s @ ''}''))"
| "json_dumps (JObject cls) =
     Inl (TypeError (''Object of type '' @ cls @ '' is not JSON serializable''))"
| "dumps_items [] = Inr []"
| "dumps_items (x # xs) =
     (case json_dumps x of
        Inl e \<Rightarrow> Inl e
      | Inr s \<Rightarrow>
          (if xs = [] then Inr s
           else case dumps_items xs of Inl e \<Rightarrow> Inl e | Inr t \<Rightarrow> Inr (s @ '', '' @ t)))"
| "dumps_pairs [] = Inr []"
| "dumps_pairs (kv # kvs) =
     (case json_dumps (snd kv) of
        Inl e \<Rightarrow> Inl e
      | Inr s \<Rightarrow>
          (let item = dumps_str (fst kv) @ '': '' @ s
           in if kvs = [] then Inr item
              else case dumps_pairs kvs of
                     Inl e \<Rightarrow> Inl e | Inr t \<Rightarrow> Inr (item @ '', '' @ t)))"

definition utf8_length :: "string \<Rightarrow> nat" where
  \<comment> \<open>\<open>len(s.encode('utf-8'))\<close>: one byte for a character below 128, two for the
      others a \<open>char\<close> can be\<close>
  "utf8_length s = sum_list (map (\<lambda>c. if of_char c < (128 :: nat) then 1 else 2) s)"

fun starts_with :: "string \<Rightarrow> string \<Rightarrow> bool" where
  "starts_with [] s = True"
| "starts_with (x # xs) [] = False"
| "starts_with (x # xs) (y # ys) = (x = y \<and> starts_with xs ys)"

fun contains :: "string \<Rightarrow> string \<Rightarrow> bool" where
  \<comment> \<open>\<open>sub in s\<close>\<close>
  "contains sub [] = (sub = [])"
| "contains sub (c # cs) = (starts_with sub (c # cs) \<or> contains sub cs)"

fun params_handler :: "error \<Rightarrow> error" where
  \<comment> \<open>\<open>except (TypeError, ValueError) as e\<close>: an error whose text has "too large"
      is raised again, any other becomes "Params must be JSON serializable"; an
      exception of another class passes\<close>
  "params_handler (TypeError m) =
     (if contains ''too large'' m then TypeError m
      else ValueError ''Params must be JSON serializable'')"
| "params_handler (ValueError m) =
     (if contains ''too large'' m then ValueError m
      else ValueError ''Params must be JSON serializable'')"
| "params_handler e = e"

definition validate_params_size :: "(string \<times> json) list \<Rightarrow> error + (string \<times> json) list" where
  "validate_params_size v =
     (case json_dumps (JDict v) of
        Inl e \<Rightarrow> Inl (params_handler e)
      | Inr serialized \<Rightarrow>
          (if utf8_length serialized > 64 * 1024
           then Inl (params_handler (ValueError ''Params too large (>64KB)''))
           else Inr v))"

section \<open>Concrete states and inputs\<close>

definition conflict_cache :: RequestDeduplicator where
  \<comment> \<open>a default deduplicator after \<open>mark_processing("r1", "devA", "start")\<close> at time 0\<close>
  "conflict_cache = snd (mark_processing 0 ''r1'' ''devA'' ''start'' (init_dedup 300 10000))"

definition completed_empty :: RequestDeduplicator where
  \<comment> \<open>\<open>r1\<close> marked processing at time 0 and completed with the result \<open>{}\<close> at time 1\<close>
  "completed_empty =
     mark_completed 1 ''r1'' (Some [])
       (snd (mark_processing 0 ''r1'' ''D1'' ''start'' (init_dedup 300 10000)))"

definition completed_none :: RequestDeduplicator where
  \<comment> \<open>the same with \<open>mark_completed("r1")\<close>, the result left at its default \<open>None\<close>\<close>
  "completed_none =
     mark_completed 1 ''r1'' None
       (snd (mark_processing 0 ''r1'' ''D1'' ''start'' (init_dedup 300 10000)))"

definition bounded_ops :: "(real \<times> dedup_op) list" where
  "bounded_ops =
     [(0, MarkProcessing ''r1'' ''D1'' ''start''),
      (1, MarkProcessing ''r2'' ''D1'' ''stop''),
      (2, MarkProcessing ''r3'' ''D2'' ''start''),
      (3, MarkCompleted ''r3'' None),
      (4, IsDuplicate ''r2'' ''D1'' ''stop''),
      (5, MarkFailed ''r2'' ''boom'')]"

definition stale_ops :: "(real \<times> dedup_op) list" where
  \<comment> \<open>two requests completed 100 seconds apart; the older one is checked again at 150
      seconds\<close>
  "stale_ops =
     [(0, MarkProcessing ''rA'' ''D1'' ''start''),
      (1, MarkCompleted ''rA'' (Some [(''success'', PBool True)])),
      (100, MarkProcessing ''rB'' ''D1'' ''stop''),
      (101, MarkCompleted ''rB'' (Some [(''success'', PBool True)])),
      (150, IsDuplicate ''rA'' ''D1'' ''start'')]"

definition stale_cache :: RequestDeduplicator where
  \<comment> \<open>a deduplicator with a TTL of 300 seconds after \<open>stale_ops\<close>\<close>
  "stale_cache = dedup_run (init_dedup 300 10000) stale_ops"

definition dispatched_db :: database where
  \<comment> \<open>one command, dispatched at time 0\<close>
  "dispatched_db =
     snd (record_command_dispatch ''id-1'' 0 ''r1'' ''D1'' ''m'' ''api'' ''start'' []
            empty_database)"



definition old_heartbeat_db :: database where
  \<comment> \<open>one heartbeat, recorded at time 0\<close>
  "old_heartbeat_db =
     empty_database
       \<lparr>heartbeats := [\<lparr>h_id = ''hb-1'', h_device_id = ''D1'', h_online = True,
                        h_timestamp = 0, h_metadata = []\<rparr>]\<rparr>"

definition timeout_letter :: "DeadLetterMessage \<times> mqtt" where
  \<comment> \<open>a timed-out command sent to the dead letter queue, never retried\<close>
  "timeout_letter =
     send_to_dlq ''dlq-1'' ''2024-01-01T00:00:30Z'' ''2024-01-01T00:00:30Z''
       ''/lab/device/D1/m/cmd'' [(''req_id'', PStr ''r2''), (''action'', PStr ''start'')]
       TIMEOUT ''Command timed out after 30 seconds'' (Some ''D1'') (Some ''m'') None 0
       None []"

definition exhausted_letter :: DeadLetterMessage where
  \<comment> \<open>the same message after three retries\<close>
  "exhausted_letter = (fst timeout_letter)\<lparr>dl_retry_count := 3\<rparr>"

definition no_jitter_config :: RetryConfig where
  "no_jitter_config = default_RetryConfig\<lparr>jitter := False\<rparr>"

definition padded_params :: "nat \<Rightarrow> (string \<times> json) list" where
  \<comment> \<open>\<open>{"k": "aa...a"}\<close> with \<open>n\<close> letters\<close>
  "padded_params n = [(''k'', JStr (replicate n CHR ''a''))]"

section \<open>The deduplication cache: what a check answers\<close>

lemmas dedup_eval =
  init_dedup_def mark_processing_def enforce_max_size.simps is_duplicate_def
  cleanup_expired_def expired_keys_def expired_def od_pop_def od_move_to_end_def
  finish_def mark_completed_def mark_failed_def or_empty_def truthy_def
  is_duplicate_request_def get_result_def Let_def dedup_run_def

text \<open>
  Claim C2 says that a check for a cached req_id with another (device_id, action) than
  the cached one reports a conflict and not a fresh request. \<open>is_duplicate\<close> has no
  such answer. In \<open>conflict_cache\<close> the id \<open>r1\<close> is cached for
  \<open>(devA, start)\<close>; a check of \<open>r1\<close> for another device, or for another action,
  answers \<open>(False, None)\<close>, which is also the answer for the id \<open>r2\<close> that was
  never seen, and \<open>is_duplicate_request\<close> passes that answer on.
\<close>

theorem is_duplicate_conflict_counterexample:
  "map (\<lambda>p. (fst p, rr_device_id (snd p), rr_action (snd p))) (cache conflict_cache)
     = [(''r1'', ''devA'', ''start'')]
   \<and> fst (is_duplicate 10 ''r1'' ''devB'' ''start'' conflict_cache) = (False, None)
   \<and> fst (is_duplicate 10 ''r1'' ''devA'' ''stop'' conflict_cache) = (False, None)
   \<and> fst (is_duplicate 10 ''r2'' ''devB'' ''start'' conflict_cache) = (False, None)
   \<and> fst (is_duplicate_request 10 ''r1'' ''devB'' ''start'' conflict_cache) = (False, None)"
  by (simp add: conflict_cache_def dedup_eval)

text \<open>
  Claim C2, as the code has it: when the req_id is cached after the expiry sweep with a
  device_id or an action that differs from the one checked, \<open>is_duplicate\<close> answers
  \<open>(False, None)\<close>, the answer it gives for a req_id that is not cached, and so
  does \<open>is_duplicate_request\<close>; the entry stays in the cache, unchanged, and becomes
  the most recently used one.
\<close>

theorem is_duplicate_mismatch:
  assumes "map_of (cache (cleanup_expired now d)) rid = Some r"
    and "rr_device_id r \<noteq> dev \<or> rr_action r \<noteq> act"
  shows "fst (is_duplicate now rid dev act d) = (False, None)
         \<and> fst (is_duplicate_request now rid dev act d) = (False, None)
         \<and> cache (snd (is_duplicate now rid dev act d))
             = od_pop rid (cache (cleanup_expired now d)) @ [(rid, r)]"
  using assms
  by (auto simp: is_duplicate_def is_duplicate_request_def Let_def od_move_to_end_def)

theorem is_duplicate_mismatch_witness:
  "map_of (cache (cleanup_expired 10 conflict_cache)) ''r1''
     = Some \<lparr>rr_req_id = ''r1'', rr_timestamp = 0, rr_device_id = ''devA'',
             rr_action = ''start'', rr_result = None, rr_processing = True\<rparr>
   \<and> fst (is_duplicate 10 ''r1'' ''devB'' ''start'' conflict_cache) = (False, None)
   \<and> fst (is_duplicate_request 10 ''r1'' ''devB'' ''start'' conflict_cache) = (False, None)"
proof -
  have h: "map_of (cache (cleanup_expired 10 conflict_cache)) ''r1''
     = Some \<lparr>rr_req_id = ''r1'', rr_timestamp = 0, rr_device_id = ''devA'',
             rr_action = ''start'', rr_result = None, rr_processing = True\<rparr>"
    by (simp add: conflict_cache_def dedup_eval)
  from is_duplicate_mismatch [OF h, of "''devB''" "''start''"] h show ?thesis by simp
qed

text \<open>
  Claim C3 says that a check of a completed req_id with the same (device_id, action)
  is a duplicate hit that carries the cached result, whatever the result, the empty one
  included. In \<open>completed_empty\<close> the id \<open>r1\<close> was completed with \<open>{}\<close> (and
  \<open>mark_completed\<close> with no result stores the same). The record is in the cache,
  \<open>is_duplicate\<close> finds it and \<open>get_result\<close> returns its \<open>{}\<close>, but
  \<open>is_duplicate_request\<close> tests the truth value of the result and answers
  \<open>(False, None)\<close>: the caller is told the request is new, and
  \<open>mark_processing\<close> then accepts it a second time.
\<close>

theorem is_duplicate_request_empty_result:
  "cache completed_empty
     = [(''r1'', \<lparr>rr_req_id = ''r1'', rr_timestamp = 1, rr_device_id = ''D1'',
                  rr_action = ''start'', rr_result = Some [], rr_processing = False\<rparr>)]
   \<and> completed_none = completed_empty
   \<and> fst (is_duplicate_request 5 ''r1'' ''D1'' ''start'' completed_empty) = (False, None)
   \<and> fst (fst (is_duplicate 5 ''r1'' ''D1'' ''start'' completed_empty)) = True
   \<and> fst (get_result ''r1'' completed_empty) = Some []
   \<and> fst (mark_processing 5 ''r1'' ''D1'' ''start''
            (snd (is_duplicate_request 5 ''r1'' ''D1'' ''start'' completed_empty))) = Inr True"
  by (simp add: completed_empty_def completed_none_def dedup_eval)

section \<open>The deduplication cache: its size\<close>

lemma length_od_pop_le: "length (od_pop k ps) \<le> length ps"
  by (simp add: od_pop_def)

lemma length_fold_od_pop_le: "length (fold od_pop ks ps) \<le> length ps"
proof (induction ks arbitrary: ps)
  case Nil
  show ?case by simp
next
  case (Cons k ks)
  have "length (fold od_pop ks (od_pop k ps)) \<le> length (od_pop k ps)"
    by (rule Cons.IH)
  also have "\<dots> \<le> length ps" by (rule length_od_pop_le)
  finally show ?case by simp
qed

lemma length_od_pop_less: "map_of ps k = Some v \<Longrightarrow> length (od_pop k ps) < length ps"
proof (induction ps)
  case Nil
  then show ?case by simp
next
  case (Cons p ps)
  show ?case
  proof (cases "fst p = k")
    case True
    have "length (od_pop k ps) < Suc (length ps)"
      using length_od_pop_le [of k ps] by arith
    moreover have "od_pop k (p # ps) = od_pop k ps" using True by (simp add: od_pop_def)
    ultimately show ?thesis by simp
  next
    case False
    with Cons.prems have "map_of ps k = Some v" by (cases p) auto
    from Cons.IH [OF this] False show ?thesis by (simp add: od_pop_def)
  qed
qed

lemma length_od_move_to_end_le: "length (od_move_to_end k ps) \<le> length ps"
proof (cases "map_of ps k")
  case None
  then show ?thesis by (simp add: od_move_to_end_def)
next
  case (Some v)
  from length_od_pop_less [OF this] Some show ?thesis
    by (simp add: od_move_to_end_def)
qed

lemma length_od_set_present: "map_of ps k = Some w \<Longrightarrow> length (od_set k v ps) = length ps"
  by (induction ps) (auto split: if_splits)

text \<open>
  With a capacity that is not negative the loop of \<open>_enforce_max_size\<close> never meets an
  empty cache: it raises nothing and leaves at most \<open>max_size\<close> entries.
\<close>

lemma enforce_max_size_ok:
  "0 \<le> max_size d \<Longrightarrow>
     fst (enforce_max_size d) = None
     \<and> int (length (cache (snd (enforce_max_size d)))) \<le> max_size d
     \<and> max_size (snd (enforce_max_size d)) = max_size d"
proof (induction d rule: enforce_max_size.induct)
  case (1 d)
  show ?case
  proof (cases "int (length (cache d)) > max_size d")
    case False
    then show ?thesis by (simp add: enforce_max_size.simps [of d])
  next
    case True
    with "1.prems" obtain p ps where c: "cache d = p # ps"
      by (cases "cache d") auto
    let ?d' = "d\<lparr>cache := od_pop (fst p) (cache d), processing := processing d - {fst p}\<rparr>"
    have "0 \<le> max_size ?d'" using "1.prems" by simp
    from "1.IH" [OF True c this] have
      "fst (enforce_max_size ?d') = None
       \<and> int (length (cache (snd (enforce_max_size ?d')))) \<le> max_size d
       \<and> max_size (snd (enforce_max_size ?d')) = max_size d" by simp
    moreover have "enforce_max_size d = enforce_max_size ?d'"
      using True c by (subst enforce_max_size.simps) simp
    ultimately show ?thesis by simp
  qed
qed

lemma cleanup_expired_bounded:
  "int (length (cache d)) \<le> max_size d \<Longrightarrow>
     int (length (cache (cleanup_expired now d))) \<le> max_size d
     \<and> max_size (cleanup_expired now d) = max_size d"
  using length_fold_od_pop_le [of "expired_keys now d" "cache d"]
  by (simp add: cleanup_expired_def Let_def)

lemma is_duplicate_bounded:
  assumes "int (length (cache d)) \<le> max_size d"
  shows "int (length (cache (snd (is_duplicate now rid dev act d)))) \<le> max_size d
         \<and> max_size (snd (is_duplicate now rid dev act d)) = max_size d"
proof -
  let ?d1 = "cleanup_expired now d"
  from cleanup_expired_bounded [OF assms, of now]
  have b: "int (length (cache ?d1)) \<le> max_size d" and m: "max_size ?d1 = max_size d"
    by simp_all
  have "length (od_move_to_end rid (cache ?d1)) \<le> length (cache ?d1)"
    by (rule length_od_move_to_end_le)
  with b m show ?thesis
    by (auto simp: is_duplicate_def Let_def split: option.splits)
qed

lemma mark_processing_bounded:
  assumes "0 \<le> max_size d" and "int (length (cache d)) \<le> max_size d"
  shows "int (length (cache (snd (mark_processing now rid dev act d)))) \<le> max_size d
         \<and> max_size (snd (mark_processing now rid dev act d)) = max_size d
         \<and> fst (mark_processing now rid dev act d) \<noteq> Inl StopIteration"
proof (cases "rid \<in> processing d")
  case True
  with assms show ?thesis by (simp add: mark_processing_def)
next
  case False
  let ?r = "\<lparr>rr_req_id = rid, rr_timestamp = now, rr_device_id = dev,
             rr_action = act, rr_result = None, rr_processing = True\<rparr>"
  let ?d1 = "d\<lparr>processing := insert rid (processing d),
               cache := od_set rid ?r (cache d)\<rparr>"
  have "0 \<le> max_size ?d1" using assms by simp
  from enforce_max_size_ok [OF this] False show ?thesis
    by (auto simp: mark_processing_def Let_def split: prod.splits option.splits)
qed

lemma finish_bounded:
  assumes "int (length (cache d)) \<le> max_size d"
  shows "int (length (cache (finish now rid res d))) \<le> max_size d
         \<and> max_size (finish now rid res d) = max_size d"
proof (cases "map_of (cache d) rid")
  case None
  with assms show ?thesis by (simp add: finish_def Let_def)
next
  case (Some r)
  let ?c = "od_set rid (r\<lparr>rr_processing := False, rr_result := Some res,
                          rr_timestamp := now\<rparr>) (cache d)"
  have "length (od_move_to_end rid ?c) \<le> length ?c" by (rule length_od_move_to_end_le)
  also have "length ?c = length (cache d)" using Some by (rule length_od_set_present)
  finally show ?thesis using assms Some by (simp add: finish_def Let_def)
qed

lemma dedup_step_bounded:
  assumes "0 \<le> max_size d" and "int (length (cache d)) \<le> max_size d"
  shows "int (length (cache (dedup_step d x))) \<le> max_size d
         \<and> max_size (dedup_step d x) = max_size d"
proof (cases x)
  case (Pair now op)
  show ?thesis
  proof (cases op)
    case (IsDuplicate rid dev act)
    with Pair is_duplicate_bounded [OF assms(2), of now rid dev act] show ?thesis by simp
  next
    case (MarkProcessing rid dev act)
    with Pair mark_processing_bounded [OF assms, of now rid dev act] show ?thesis by simp
  next
    case (MarkCompleted rid res)
    with Pair finish_bounded [OF assms(2), of now rid "or_empty res"] show ?thesis
      by (simp add: mark_completed_def)
  next
    case (MarkFailed rid err)
    with Pair finish_bounded [OF assms(2)] show ?thesis
      by (simp add: mark_failed_def)
  qed
qed

lemma dedup_run_bounded:
  "0 \<le> max_size d \<Longrightarrow> int (length (cache d)) \<le> max_size d \<Longrightarrow>
     int (length (cache (dedup_run d ops))) \<le> max_size d
     \<and> max_size (dedup_run d ops) = max_size d"
proof (induction ops arbitrary: d)
  case Nil
  then show ?case by (simp add: dedup_run_def)
next
  case (Cons x ops)
  from dedup_step_bounded [OF Cons.prems, of x]
  have b: "int (length (cache (dedup_step d x))) \<le> max_size (dedup_step d x)"
    and m: "max_size (dedup_step d x) = max_size d" by simp_all
  from Cons.prems(1) m have "0 \<le> max_size (dedup_step d x)" by simp
  from Cons.IH [OF this b] m show ?case by (simp add: dedup_run_def)
qed

text \<open>
  Claim C4: a deduplicator constructed with a capacity \<open>cap\<close> (a size, so not
  negative) holds at most \<open>cap\<close> entries after every sequence of \<open>is_duplicate\<close>,
  \<open>mark_processing\<close>, \<open>mark_completed\<close> and \<open>mark_failed\<close> calls, whatever the
  clock shows at each call. The sequence is arbitrary, so the bound holds after each of
  its calls.
\<close>

theorem dedup_cache_bounded:
  "0 \<le> cap \<Longrightarrow> int (length (cache (dedup_run (init_dedup ttl cap) ops))) \<le> cap"
  using dedup_run_bounded [of "init_dedup ttl cap" ops] by (simp add: init_dedup_def)

theorem dedup_cache_bounded_witness:
  "(0::int) \<le> 2
   \<and> int (length (cache (dedup_run (init_dedup 300 2) bounded_ops))) \<le> 2
   \<and> map fst (cache (dedup_run (init_dedup 300 2) bounded_ops)) = [''r3'', ''r2'']"
  using dedup_cache_bounded [of 2 300 bounded_ops]
  by (simp add: bounded_ops_def dedup_eval)

section \<open>The deduplication cache: the expiry sweep\<close>

text \<open>
  Claim C5 says that after a check at time \<open>t\<close> the cache holds no entry older than
  \<open>t - ttl_seconds\<close>, wherever the entry stands in the LRU order. The sweep stops at
  the first entry that has not expired, and a hit moves an entry to the end without a
  new timestamp, so an old entry can stand behind a younger one. In \<open>stale_cache\<close>
  (TTL 300 seconds) the entry \<open>rA\<close>, stamped at time 1, stands behind \<open>rB\<close>,
  stamped at time 101. A check of \<open>rA\<close> at time 350 sweeps nothing, reports \<open>rA\<close>
  as a duplicate, and returns with \<open>rA\<close> still cached, although it is older than
  350 - 300.
\<close>

theorem is_duplicate_leaves_expired_entry:
  "map (\<lambda>p. (fst p, rr_timestamp (snd p))) (cache stale_cache) = [(''rB'', 101), (''rA'', 1)]
   \<and> map (\<lambda>p. (fst p, rr_timestamp (snd p)))
        (cache (snd (is_duplicate 350 ''rA'' ''D1'' ''start'' stale_cache)))
       = [(''rB'', 101), (''rA'', 1)]
   \<and> expired 350 300
        (the (map_of (cache (snd (is_duplicate 350 ''rA'' ''D1'' ''start'' stale_cache))) ''rA''))
   \<and> fst (fst (is_duplicate 350 ''rA'' ''D1'' ''start'' stale_cache)) = True"
  by (simp add: stale_cache_def stale_ops_def dedup_eval)

section \<open>The commands table: acknowledgments\<close>








text \<open>
  Claim C10: for a req_id that no row of the commands table has,
  \<open>record_command_ack\<close> returns \<open>None\<close> and leaves the database as it was; it
  inserts nothing.
\<close>

theorem record_command_ack_unknown:
  "rid \<notin> set (map c_req_id (commands db)) \<Longrightarrow>
     record_command_ack n1 n2 rid s e r db = (None, db)"
proof -
  assume "rid \<notin> set (map c_req_id (commands db))"
  then have "find (\<lambda>c. c_req_id c = rid) (commands db) = None"
    by (auto simp: find_None_iff)
  then show ?thesis by (simp add: record_command_ack_def query_command_def)
qed

theorem record_command_ack_unknown_witness:
  "''r9'' \<notin> set (map c_req_id (commands dispatched_db))
   \<and> map c_req_id (commands dispatched_db) = [''r1'']
   \<and> record_command_ack 5 6 ''r9'' True None None dispatched_db = (None, dispatched_db)"
  using record_command_ack_unknown [of "''r9''" dispatched_db 5 6 True None None]
  by (simp add: dispatched_db_def record_command_dispatch_def empty_database_def Let_def)

section \<open>The cleanup of old records\<close>

lemma cleanup_old_records_commands:
  "commands (snd (cleanup_old_records now days db)) = commands db"
  by (simp add: cleanup_old_records_def Let_def split: sum.splits)

text \<open>
  Claim C7 says that the cleanup deletes exactly the heartbeat, module-status and event
  rows older than the start of today minus \<open>N\<close> days, and no command. The commands
  are indeed never touched (\<open>cleanup_old_records_commands\<close>), but nothing else is
  deleted either: the cutoff is computed as \<open>cutoff - datetime.timedelta(days=days)\<close>
  where \<open>datetime\<close> is the class, which has no attribute \<open>timedelta\<close>, so the call
  raises before the session is opened. In \<open>old_heartbeat_db\<close> the only heartbeat was
  recorded at time 0; a cleanup 100 days later with a retention of 30 days has a cutoff
  after time 0, raises \<open>AttributeError\<close>, and the heartbeat is still there.
\<close>

theorem cleanup_old_records_raises:
  "cleanup_old_records (100 * 86400000000) 30 old_heartbeat_db
     = (Inl (AttributeError ''timedelta''), old_heartbeat_db)
   \<and> map h_timestamp (heartbeats old_heartbeat_db) = [0]
   \<and> (0::int) < start_of_day (100 * 86400000000) - timedelta_days 30"
  by (simp add: cleanup_old_records_def datetime_timedelta_def datetime_class_attributes_def
      old_heartbeat_db_def empty_database_def start_of_day_def timedelta_days_def)

section \<open>The dead letter queue: operator retry\<close>

text \<open>
  Claim C6 says that an operator retry of a dead-letter record republishes its payload
  to its topic and increments its retry count while the count is below the maximum.
  \<open>retry_message\<close> looks the record up with \<open>_get_dlq_message\<close>, which is a
  placeholder that returns \<open>None\<close>. The message of \<open>timeout_letter\<close> has been sent
  to the queue (published on \<open>/lab/dlq/D1/m\<close>) with a retry count of 0; its retry
  with a maximum of 3 returns \<open>False\<close> and publishes nothing.
\<close>

theorem retry_message_counterexample:
  "dl_id (fst timeout_letter) = ''dlq-1''
   \<and> dl_retry_count (fst timeout_letter) = 0
   \<and> map pub_topic (snd timeout_letter) = [''/lab/dlq/D1/m'']
   \<and> retry_message 3 ''2024-01-01T00:01:00Z'' ''dlq-1'' (snd timeout_letter)
        = (False, snd timeout_letter)"
  by (simp add: timeout_letter_def send_to_dlq_def publish_json_def str_truthy_def
      or_empty_def truthy_def retry_message_def get_dlq_message_def Let_def)

text \<open>
  Claim C6, as the code has it: \<open>retry_message\<close> finds no record, for any id, and
  returns \<open>False\<close> without a publication. The retry logic behind the lookup is the
  claim's: for a message \<open>m\<close> with a retry count below \<open>max_retries\<close> it publishes
  the original payload on the original topic (quality 1, not retained), adds one to the
  count and returns \<open>True\<close>; for a message \<open>m'\<close> whose count has reached
  \<open>max_retries\<close> it returns \<open>False\<close>, publishes nothing and leaves the count.
  The refusal is the value \<open>False\<close>; it carries no reason.
\<close>

theorem retry_message_finds_nothing:
  "retry_message max_retries now dlq_id out = (False, out)
   \<and> (dl_retry_count m < max_retries \<longrightarrow>
        retry_found max_retries now m out
          = (True,
             m\<lparr>dl_retry_count := dl_retry_count m + 1, dl_last_failed_at := now\<rparr>,
             out @ [\<lparr>pub_topic = dl_original_topic m, pub_payload = Plain (dl_payload m),
                      pub_qos = 1, pub_retain = False\<rparr>]))
   \<and> (max_retries \<le> dl_retry_count m' \<longrightarrow>
        retry_found max_retries now m' out = (False, m', out))"
  by (simp add: retry_message_def get_dlq_message_def retry_found_def publish_json_def Let_def)

theorem retry_message_finds_nothing_witness:
  "dl_retry_count (fst timeout_letter) < 3
   \<and> (3::int) \<le> dl_retry_count exhausted_letter
   \<and> retry_message 3 ''t'' ''dlq-1'' [] = (False, [])
   \<and> fst (retry_found 3 ''t'' (fst timeout_letter) [])
   \<and> dl_retry_count (fst (snd (retry_found 3 ''t'' (fst timeout_letter) []))) = 1
   \<and> map pub_topic (snd (snd (retry_found 3 ''t'' (fst timeout_letter) [])))
        = [''/lab/device/D1/m/cmd'']
   \<and> retry_found 3 ''t'' exhausted_letter [] = (False, exhausted_letter, [])"
  using retry_message_finds_nothing
          [of 3 "''t''" "''dlq-1''" "[]" "fst timeout_letter" exhausted_letter]
  by (simp add: exhausted_letter_def timeout_letter_def send_to_dlq_def Let_def)

section \<open>The backoff delay\<close>

text \<open>
  Claim C8 says that the delay of every attempt \<open>n \<ge> 1\<close> is
  \<open>min(base_delay * exponential_base^(n-1), max_delay)\<close>, with the jitter around
  it. \<open>calculate_delay\<close> does cap the delay with \<open>min(delay, self.max_delay)\<close>,
  but only after it has computed the power, and a float power that leaves the range of
  a double raises. With the default base 2, attempt 1025 asks for \<open>2.0 ** 1024\<close>:
  the call raises \<open>OverflowError\<close>, with or without jitter and whatever the
  rounding and the draw are, where the formula gives the cap, 60.
\<close>

theorem calculate_delay_overflow:
  "calculate_delay rnd no_jitter_config 1025 u = Inl OverflowError
   \<and> calculate_delay rnd default_RetryConfig 1025 u = Inl OverflowError
   \<and> min (base_delay no_jitter_config * exponential_base no_jitter_config ^ 1024)
         (max_delay no_jitter_config) = 60"
  by (simp add: calculate_delay_def float_pow_def to_double_def overflow_threshold_def
      no_jitter_config_def default_RetryConfig_def)

lemma below_threshold: "k \<le> 1023 \<Longrightarrow> (2::real) ^ k < overflow_threshold"
proof -
  assume "k \<le> 1023"
  then have "(2::real) ^ k \<le> 2 ^ 1023" by (intro power_increasing) simp_all
  also have "(2::real) ^ 1023 < overflow_threshold" by (simp add: overflow_threshold_def)
  finally show ?thesis .
qed

text \<open>
  Where nothing rounds, the delay is the formula's: with the default configuration and
  no jitter, the delay of an attempt from 1 to 1024 is \<open>min(2^(n-1), 60)\<close>, given
  that the rounding leaves the power of two, which is a double, as it is.
\<close>

theorem calculate_delay_power_of_two:
  assumes "1 \<le> n" and "n \<le> 1024" and "rnd (2 ^ nat (n - 1)) = 2 ^ nat (n - 1)"
  shows "calculate_delay rnd no_jitter_config n u = Inr (Fin (min (2 ^ nat (n - 1)) 60))"
proof -
  let ?p = "(2::real) ^ nat (n - 1)"
  have "nat (n - 1) \<le> 1023" using assms(1,2) by simp
  from below_threshold [OF this] have lt: "?p < overflow_threshold" .
  have pos: "0 < ?p" by simp
  have thr: "0 < overflow_threshold" by (simp add: overflow_threshold_def)
  with pos have "\<not> ?p \<le> - overflow_threshold" by linarith
  with lt assms(3) have td: "to_double rnd ?p = Fin ?p"
    by (simp add: to_double_def)
  have fp: "float_pow rnd (exponential_base no_jitter_config) (n - 1) = Inr ?p"
  proof (cases "n = 1")
    case True
    then show ?thesis by (simp add: float_pow_def)
  next
    case False
    with assms(1) have "0 < n - 1" by simp
    then show ?thesis using td
      by (simp add: float_pow_def no_jitter_config_def default_RetryConfig_def)
  qed
  show ?thesis using fp td
    by (simp add: calculate_delay_def no_jitter_config_def default_RetryConfig_def
        py_min_def min_def Let_def)
qed

theorem calculate_delay_power_of_two_witness:
  "(1::int) \<le> 3 \<and> (3::int) \<le> 1024 \<and> (\<lambda>x::real. x) (2 ^ nat (3 - 1)) = 2 ^ nat (3 - 1)
   \<and> calculate_delay (\<lambda>x. x) no_jitter_config 3 0 = Inr (Fin 4)
   \<and> calculate_delay (\<lambda>x. x) no_jitter_config 8 0 = Inr (Fin 60)"
  using calculate_delay_power_of_two [of 3 "\<lambda>x. x" 0]
        calculate_delay_power_of_two [of 8 "\<lambda>x. x" 0]
  by simp

section \<open>The size limit of the params\<close>

lemma escape_a: "escape_char CHR ''a'' = ''a''"
  by (simp add: escape_char_def)

lemma dumps_padded:
  "json_dumps (JDict (padded_params n))
     = Inr (''{'' @ dumps_str ''k'' @ '': '' @ [CHR 0x22] @ replicate n CHR ''a''
              @ [CHR 0x22] @ ''}'')"
  by (simp add: padded_params_def dumps_str_def escape_a)

lemma dumps_padded_length:
  "\<exists>s. json_dumps (JDict (padded_params n)) = Inr s \<and> utf8_length s = n + 9"
  unfolding dumps_padded
  by (simp add: dumps_str_def escape_char_def utf8_length_def sum_list_replicate)

text \<open>
  Claim C9: the params validator of the command envelope accepts a params map exactly
  when it serializes and its serialization has at most 64 KiB (65536 bytes of UTF-8),
  and returns the map as it is; in particular a map \<open>a\<close> whose serialization has
  exactly 64 KiB is accepted, and a map \<open>b\<close> whose serialization has 64 KiB plus one
  byte is rejected, with the error "Params too large (>64KB)".
\<close>

theorem validate_params_size_limit:
  "(validate_params_size v = Inr v'
      \<longleftrightarrow> v' = v \<and> (\<exists>s. json_dumps (JDict v) = Inr s \<and> utf8_length s \<le> 64 * 1024))
   \<and> (json_dumps (JDict a) = Inr s \<and> utf8_length s = 64 * 1024
        \<longrightarrow> validate_params_size a = Inr a)
   \<and> (json_dumps (JDict b) = Inr t \<and> utf8_length t = 64 * 1024 + 1
        \<longrightarrow> validate_params_size b = Inl (ValueError ''Params too large (>64KB)''))"
proof (intro conjI impI)
  show "validate_params_size v = Inr v'
      \<longleftrightarrow> v' = v \<and> (\<exists>s. json_dumps (JDict v) = Inr s \<and> utf8_length s \<le> 64 * 1024)"
    by (cases "json_dumps (JDict v)") (auto simp: validate_params_size_def)
next
  assume "json_dumps (JDict a) = Inr s \<and> utf8_length s = 64 * 1024"
  then show "validate_params_size a = Inr a" by (simp add: validate_params_size_def)
next
  assume "json_dumps (JDict b) = Inr t \<and> utf8_length t = 64 * 1024 + 1"
  then show "validate_params_size b = Inl (ValueError ''Params too large (>64KB)'')"
    by (simp add: validate_params_size_def)
qed

theorem validate_params_size_limit_witness:
  "(\<exists>s. json_dumps (JDict (padded_params 65527)) = Inr s \<and> utf8_length s = 64 * 1024)
   \<and> validate_params_size (padded_params 65527) = Inr (padded_params 65527)
   \<and> (\<exists>t. json_dumps (JDict (padded_params 65528)) = Inr t \<and> utf8_length t = 64 * 1024 + 1)
   \<and> validate_params_size (padded_params 65528) = Inl (ValueError ''Params too large (>64KB)'')"
proof -
  from dumps_padded_length [of 65527]
  obtain s where s: "json_dumps (JDict (padded_params 65527)) = Inr s"
    and ls: "utf8_length s = 64 * 1024" by auto
  from dumps_padded_length [of 65528]
  obtain t where t: "json_dumps (JDict (padded_params 65528)) = Inr t"
    and lt: "utf8_length t = 64 * 1024 + 1" by auto
  from validate_params_size_limit
         [of "padded_params 65527" "padded_params 65527" "padded_params 65527" s
             "padded_params 65528" t] s ls t lt
  have "validate_params_size (padded_params 65527) = Inr (padded_params 65527)
        \<and> validate_params_size (padded_params 65528)
            = Inl (ValueError ''Params too large (>64KB)'')"
    by blast
  with s ls t lt show ?thesis by blast
qed

section \<open>The deduplication cache: a completed request with a result\<close>

lemma map_of_od_pop_other: "k \<noteq> rid \<Longrightarrow> map_of (od_pop k ps) rid = map_of ps rid"
  by (induction ps) (auto simp: od_pop_def)

lemma map_of_fold_od_pop:
  "rid \<notin> set ks \<Longrightarrow> map_of (fold od_pop ks ps) rid = map_of ps rid"
  by (induction ks arbitrary: ps) (auto simp: map_of_od_pop_other)

lemma map_of_od_pop_same: "map_of (od_pop k ps) k = None"
  by (induction ps) (auto simp: od_pop_def)

lemma map_of_move_to_end:
  "map_of ps k = Some v \<Longrightarrow> map_of (od_move_to_end k ps) k = Some v"
  by (simp add: od_move_to_end_def map_of_od_pop_same map_add_def)

lemma map_of_od_set: "map_of (od_set k v ps) k = Some v"
  by (induction ps) auto

lemma takeWhile_keys:
  "map_of ps rid = Some r \<Longrightarrow> \<not> P r \<Longrightarrow> rid \<notin> fst ` set (takeWhile (\<lambda>p. P (snd p)) ps)"
proof (induction ps)
  case Nil
  then show ?case by simp
next
  case (Cons p ps)
  show ?case
  proof (cases "fst p = rid")
    case True
    with Cons.prems have "snd p = r" by (cases p) auto
    with Cons.prems(2) show ?thesis by simp
  next
    case False
    with Cons.prems have "map_of ps rid = Some r" by (cases p) auto
    from Cons.IH [OF this Cons.prems(2)] False show ?thesis by auto
  qed
qed

lemma cleanup_expired_keeps:
  assumes "map_of (cache d) rid = Some r" and "\<not> expired now (ttl_seconds d) r"
  shows "map_of (cache (cleanup_expired now d)) rid = Some r"
proof -
  from takeWhile_keys [OF assms(1), of "expired now (ttl_seconds d)"] assms(2)
  have "rid \<notin> set (expired_keys now d)" by (simp add: expired_keys_def)
  from map_of_fold_od_pop [OF this, of "cache d"] assms(1) show ?thesis
    by (simp add: cleanup_expired_def Let_def)
qed

text \<open>
  The other side of the check of a completed request: when the req_id is cached, is
  completed with a result that is not empty, and is checked within the TTL of its
  completion with the device and action it was recorded with, \<open>is_duplicate_request\<close>
  reports a duplicate and hands back the cached result.
\<close>

theorem completed_request_is_duplicate:
  assumes "map_of (cache d) rid = Some r" and "res \<noteq> []"
    and "now - tc \<le> of_int (ttl_seconds d)"
  shows "fst (is_duplicate_request now rid (rr_device_id r) (rr_action r)
               (mark_completed tc rid (Some res) d)) = (True, Some res)"
proof -
  let ?r' = "r\<lparr>rr_processing := False, rr_result := Some res, rr_timestamp := tc\<rparr>"
  let ?d' = "mark_completed tc rid (Some res) d"
  have oe: "or_empty (Some res) = res" using assms(2)
    by (cases res) (simp_all add: or_empty_def truthy_def)
  have c: "map_of (cache ?d') rid = Some ?r'" and t: "ttl_seconds ?d' = ttl_seconds d"
    using assms(1)
    by (simp_all add: mark_completed_def finish_def Let_def oe map_of_move_to_end map_of_od_set)
  have "\<not> expired now (ttl_seconds ?d') ?r'" using assms(3) t by (simp add: expired_def)
  from cleanup_expired_keeps [OF c this]
  have k: "map_of (cache (cleanup_expired now ?d')) rid = Some ?r'" .
  have tr: "truthy (Some res)" using assms(2) by (cases res) (simp_all add: truthy_def)
  show ?thesis using k tr
    by (simp add: is_duplicate_request_def is_duplicate_def Let_def)
qed

theorem completed_request_is_duplicate_witness:
  "fst (is_duplicate_request 5 ''r1'' ''devA'' ''start''
         (mark_completed 1 ''r1'' (Some [(''success'', PBool True)]) conflict_cache))
     = (True, Some [(''success'', PBool True)])"
proof -
  have h: "map_of (cache conflict_cache) ''r1''
     = Some \<lparr>rr_req_id = ''r1'', rr_timestamp = 0, rr_device_id = ''devA'',
             rr_action = ''start'', rr_result = None, rr_processing = True\<rparr>"
    and t: "ttl_seconds conflict_cache = 300"
    by (simp_all add: conflict_cache_def dedup_eval)
  have "(5::real) - 1 \<le> of_int (ttl_seconds conflict_cache)" using t by simp
  from completed_request_is_duplicate [OF h _ this, of "[(''success'', PBool True)]"]
  show ?thesis by simp
qed

end
